theory Spec2Isabelle
  imports Main "HOL-Library.AList"
begin

section \<open>JavaScript values, errors and results\<close>

text \<open>
  The values that travel through the pipeline are opaque to it. Scalar values are
  \<open>jsval\<close>; an object literal is an association list in insertion order, read with
  \<open>get_prop\<close> (a missing key reads as \<open>undefined\<close>) and written with \<open>set_prop\<close>
  (an existing key keeps its place and takes the new value, a new key goes last).
\<close>

datatype jsval = JUndefined | JNull | JBool bool | JNum int | JStr string

type_synonym jsobj = "(string \<times> jsval) list"

definition get_prop :: "jsobj \<Rightarrow> string \<Rightarrow> jsval" where
  "get_prop obj k = (case map_of obj k of None \<Rightarrow> JUndefined | Some v \<Rightarrow> v)"

definition set_prop :: "string \<Rightarrow> jsval \<Rightarrow> jsobj \<Rightarrow> jsobj" where
  "set_prop k v obj = AList.update k v obj"

text \<open>
  The object literal \<open>{ [k1]: v1, [k2]: v2 }\<close> with computed keys: the entries are set
  in this order, so equal keys leave one entry, holding \<open>v2\<close>.
\<close>

definition object2 :: "string \<Rightarrow> jsval \<Rightarrow> string \<Rightarrow> jsval \<Rightarrow> jsobj" where
  "object2 k1 v1 k2 v2 = set_prop k2 v2 (set_prop k1 v1 [])"

datatype error_kind = InvalidRequest | Unauthorized | BadRequest | NotFound

text \<open>
  A thrown value: an \<open>Error\<close> with its message, and the error type that
  \<open>createServerError\<close> attaches (\<open>new Error(m)\<close> has none).
\<close>

datatype js_error = JsError (message: string) (errorType: "error_kind option")

definition new_Error :: "string \<Rightarrow> js_error" where
  "new_Error m = JsError m None"

text \<open>
  Modelled from the spec: \<open>createServerError\<close> of \<open>@phenyl/utils\<close> is not among the
  sources. The spec (4.3) describes its value as an error of the given kind carrying the
  given message.
\<close>

definition createServerError :: "string \<Rightarrow> error_kind \<Rightarrow> js_error" where
  "createServerError m k = JsError m (Some k)"

text \<open>
  An error result \<open>{ok: 0, type, message}\<close>. The type \<open>None\<close> is the generic, untyped
  error of the spec (section 7).
\<close>

record errorResult =
  er_type :: "error_kind option"
  er_message :: string

text \<open>
  Modelled from the spec: \<open>createErrorResult\<close> of \<open>phenyl-utils\<close> is not among the
  sources. The spec writes its value \<open>Kind("message")\<close> when a kind is passed, and calls
  it a generic error result when none is.
\<close>

definition createErrorResult :: "js_error \<Rightarrow> error_kind option \<Rightarrow> errorResult" where
  "createErrorResult e ty = \<lparr> er_type = ty, er_message = message e \<rparr>"

text \<open>
  A result-or-error envelope is a union discriminated by its \<open>ok\<close> field:
  \<open>Ok r\<close> is \<open>{ok: 1, ...r}\<close> and \<open>Failed e\<close> is \<open>{ok: 0, ...e}\<close>. A test of
  \<open>result.ok\<close> is a case distinction on the two.
\<close>

datatype 'a resultOrError = Ok 'a | Failed errorResult

section \<open>Outcomes of calls\<close>

text \<open>
  What a call expression \<open>f(x)\<close> does: it returns a value or a promise that resolves
  (\<open>Resolved\<close>), returns a promise that rejects (\<open>Rejected\<close>), or throws before
  returning (\<open>Thrown\<close>). Inside a function body the same three values say how an
  expression or block completes: normally, by returning a promise that rejects, or by
  raising an exception that an enclosing \<open>catch\<close> can still handle.
\<close>

datatype 'a outcome = Resolved 'a | Rejected js_error | Thrown js_error

section \<open>Commands, sessions and the trace of calls\<close>

text \<open>The fifteen variants of a command envelope.\<close>

datatype variant =
    Find | FindOne | Get | GetByIds | Insert | InsertAndGet | InsertAndFetch
  | Update | UpdateAndGet | UpdateAndFetch | Delete
  | RunCustomQuery | RunCustomCommand | Login | Logout

record preSession =
  ps_expiredAt :: string
  ps_entityName :: string
  ps_userId :: string

record session =
  s_id :: string
  s_expiredAt :: string
  s_entityName :: string
  s_userId :: string

record entity =
  e_id :: string
  e_props :: jsobj

record loginCommand =
  lc_entityName :: string
  lc_credentials :: jsobj

record logoutCommand =
  lo_sessionId :: string

record findOneQuery =
  q_entityName :: string
  q_where :: jsobj

text \<open>
  A call that a function of the core or of the strategy makes to a collaborator: the
  Session Store, the Operation Backend (named by the variant of its method), a hook, or
  the strategy's own entity client.
\<close>

datatype event =
    SessionGet "string option"
  | SessionCreate preSession
  | SessionDelete string
  | EntityCall variant jsobj
  | AclHook
  | ValidationHook
  | ExecutionWrapperHook
  | CustomQueryHook jsobj
  | CustomCommandHook jsobj
  | AuthenticationHook loginCommand
  | UserFindOne findOneQuery

section \<open>Promises, await and try/catch over a state\<close>

text \<open>
  The state is the world of the collaborators (session store, backing store, clock)
  and the trace of the calls made so far. A collaborator is a function on the world:
  what a hook does with the clients it is handed is part of its effect on the world.
  \<open>call\<close> records the call and runs it, so the trace lists the calls that the
  modelled functions themselves make, in order.
\<close>

type_synonym 'w state = "'w \<times> event list"
type_synonym ('w, 'a) ext = "'w \<Rightarrow> 'a outcome \<times> 'w"
type_synonym ('w, 'a) js = "'w state \<Rightarrow> 'a outcome \<times> 'w state"

definition invoke :: "event \<Rightarrow> ('w, 'a) js \<Rightarrow> ('w, 'a) js" where
  "invoke ev m = (\<lambda>(w, tr). m (w, tr @ [ev]))"

definition lift :: "('w, 'a) ext \<Rightarrow> ('w, 'a) js" where
  "lift f = (\<lambda>(w, tr). case f w of (r, w') \<Rightarrow> (r, (w', tr)))"

definition call :: "event \<Rightarrow> ('w, 'a) ext \<Rightarrow> ('w, 'a) js" where
  "call ev f = invoke ev (lift f)"

definition return :: "'a \<Rightarrow> ('w, 'a) js" where
  "return v = (\<lambda>s. (Resolved v, s))"

definition throw :: "js_error \<Rightarrow> ('w, 'a) js" where
  "throw e = (\<lambda>s. (Thrown e, s))"

text \<open>
  \<open>await m\<close> then the rest of the body: a promise that rejects and a call that throws
  both raise the exception at the \<open>await\<close>.
\<close>

definition await :: "('w, 'a) js \<Rightarrow> ('a \<Rightarrow> ('w, 'b) js) \<Rightarrow> ('w, 'b) js" where
  "await m k = (\<lambda>s. case m s of
       (Resolved v, s') \<Rightarrow> k v s'
     | (Rejected e, s') \<Rightarrow> (Thrown e, s')
     | (Thrown e, s') \<Rightarrow> (Thrown e, s'))"

text \<open>
  \<open>try { body } catch (e) { handler }\<close>: only an exception raised inside the body
  reaches the handler. A promise that the body returns without awaiting it has left the
  block when it rejects.
\<close>

definition try_catch :: "('w, 'a) js \<Rightarrow> (js_error \<Rightarrow> ('w, 'a) js) \<Rightarrow> ('w, 'a) js" where
  "try_catch body handler = (\<lambda>s. case body s of
       (Thrown e, s') \<Rightarrow> handler e s'
     | (Resolved v, s') \<Rightarrow> (Resolved v, s')
     | (Rejected e, s') \<Rightarrow> (Rejected e, s'))"

text \<open>
  An \<open>async\<close> function never throws to its caller: an exception that leaves its body
  rejects the promise it returned.
\<close>

definition async :: "('w, 'a) js \<Rightarrow> ('w, 'a) js" where
  "async body = (\<lambda>s. case body s of
       (Thrown e, s') \<Rightarrow> (Rejected e, s')
     | (Resolved v, s') \<Rightarrow> (Resolved v, s')
     | (Rejected e, s') \<Rightarrow> (Rejected e, s'))"

section \<open>The pipeline: PhenylCore\<close>

text \<open>
  The command envelope: one optional field per variant. \<open>None\<close> is a field that is
  \<open>null\<close> or \<open>undefined\<close>, the two values that \<open>!= null\<close> rejects.
\<close>

record requestData =
  req_find :: "jsobj option"
  req_findOne :: "jsobj option"
  req_get :: "jsobj option"
  req_getByIds :: "jsobj option"
  req_insert :: "jsobj option"
  req_insertAndGet :: "jsobj option"
  req_insertAndFetch :: "jsobj option"
  req_update :: "jsobj option"
  req_updateAndGet :: "jsobj option"
  req_updateAndFetch :: "jsobj option"
  req_delete :: "jsobj option"
  req_runCustomQuery :: "jsobj option"
  req_runCustomCommand :: "jsobj option"
  req_login :: "loginCommand option"
  req_logout :: "logoutCommand option"

record loginCommandResult =
  lr_user :: entity
  lr_session :: session

text \<open>The result envelope: an object with exactly one key.\<close>

datatype responseData =
    Res_find jsobj
  | Res_findOne jsobj
  | Res_get jsobj
  | Res_getByIds jsobj
  | Res_insert jsobj
  | Res_insertAndGet jsobj
  | Res_insertAndFetch jsobj
  | Res_update jsobj
  | Res_updateAndGet jsobj
  | Res_updateAndFetch jsobj
  | Res_delete jsobj
  | Res_runCustomQuery jsobj
  | Res_runCustomCommand jsobj
  | Res_login loginCommandResult
  | Res_logout unit
  | Res_error errorResult

text \<open>
  The result of the authentication hook, discriminated by \<open>ok\<close>:
  \<open>{ok: 1, preSession, user, versionId}\<close> or \<open>{ok: 0, error, resultType}\<close>.
\<close>

datatype authenticationResult =
    AuthOk preSession entity string
  | AuthFailed js_error error_kind

record 'w sessionClient =
  sc_get :: "string option \<Rightarrow> ('w, session option) ext"
  sc_create :: "preSession \<Rightarrow> ('w, session) ext"
  sc_delete :: "string \<Rightarrow> ('w, bool) ext"

record 'w entityClient =
  ec_find :: "jsobj \<Rightarrow> ('w, jsobj resultOrError) ext"
  ec_findOne :: "jsobj \<Rightarrow> ('w, jsobj resultOrError) ext"
  ec_get :: "jsobj \<Rightarrow> ('w, jsobj resultOrError) ext"
  ec_getByIds :: "jsobj \<Rightarrow> ('w, jsobj resultOrError) ext"
  ec_insert :: "jsobj \<Rightarrow> ('w, jsobj resultOrError) ext"
  ec_insertAndGet :: "jsobj \<Rightarrow> ('w, jsobj resultOrError) ext"
  ec_insertAndFetch :: "jsobj \<Rightarrow> ('w, jsobj resultOrError) ext"
  ec_update :: "jsobj \<Rightarrow> ('w, jsobj resultOrError) ext"
  ec_updateAndGet :: "jsobj \<Rightarrow> ('w, jsobj resultOrError) ext"
  ec_updateAndFetch :: "jsobj \<Rightarrow> ('w, jsobj resultOrError) ext"
  ec_delete :: "jsobj \<Rightarrow> ('w, jsobj resultOrError) ext"

record 'w clientPool =
  sessionClient :: "'w sessionClient"
  entityClient :: "'w entityClient"

record 'w phenylCore =
  clients :: "'w clientPool"
  aclHandler :: "requestData \<Rightarrow> session option \<Rightarrow> 'w clientPool \<Rightarrow> ('w, bool) ext"
  validationHandler :: "requestData \<Rightarrow> session option \<Rightarrow> 'w clientPool \<Rightarrow> ('w, bool) ext"
  customQueryHandler ::
    "jsobj \<Rightarrow> session option \<Rightarrow> 'w clientPool \<Rightarrow> ('w, jsobj resultOrError) ext"
  customCommandHandler ::
    "jsobj \<Rightarrow> session option \<Rightarrow> 'w clientPool \<Rightarrow> ('w, jsobj resultOrError) ext"
  authenticationHandler ::
    "loginCommand \<Rightarrow> session option \<Rightarrow> 'w clientPool \<Rightarrow> ('w, authenticationResult) ext"
  executionWrapper ::
    "requestData \<Rightarrow> session option \<Rightarrow> 'w clientPool
      \<Rightarrow> (requestData \<Rightarrow> session option \<Rightarrow> ('w, responseData) js)
      \<Rightarrow> ('w, responseData) js"

text \<open>
  \<open>login\<close>: the hook, then the Session Store's \<open>create\<close>; the whole body is inside
  \<open>try\<close>, and both calls are awaited.
\<close>

definition login ::
  "'w phenylCore \<Rightarrow> loginCommand \<Rightarrow> session option \<Rightarrow> ('w, loginCommandResult resultOrError) js"
where
  "login core loginCommand session = async (
     try_catch
       (await (call (AuthenticationHook loginCommand)
                 (authenticationHandler core loginCommand session (clients core)))
          (\<lambda>result. case result of
               AuthFailed err resultType \<Rightarrow>
                 return (Failed (createErrorResult err (Some resultType)))
             | AuthOk preSession user versionId \<Rightarrow>
                 await (call (SessionCreate preSession)
                          (sc_create (sessionClient (clients core)) preSession))
                   (\<lambda>newSession.
                      return (Ok \<lparr> lr_user = user, lr_session = newSession \<rparr>))))
       (\<lambda>e. return (Failed (createErrorResult e None))))"

definition logout ::
  "'w phenylCore \<Rightarrow> logoutCommand \<Rightarrow> session option \<Rightarrow> ('w, unit resultOrError) js"
where
  "logout core logoutCommand session = async (
     let sessionId = lo_sessionId logoutCommand in
     try_catch
       (await (call (SessionDelete sessionId)
                 (sc_delete (sessionClient (clients core)) sessionId))
          (\<lambda>result.
             if \<not> result
             then return (Failed (createErrorResult (new_Error ''sessionId not found'')
                                    (Some BadRequest)))
             else return (Ok ())))
       (\<lambda>e. return (Failed (createErrorResult e None))))"

text \<open>\<open>result.ok ? { key: result } : { error: result }\<close>\<close>

definition wrap :: "('a \<Rightarrow> responseData) \<Rightarrow> 'a resultOrError \<Rightarrow> responseData" where
  "wrap key result = (case result of Ok r \<Rightarrow> key r | Failed e \<Rightarrow> Res_error e)"

text \<open>
  \<open>if (x != null) { return then(x) } rest\<close>: the branch is taken when the field is
  neither \<open>null\<close> nor \<open>undefined\<close>, and it returns from the function.
\<close>

definition if_not_null :: "'p option \<Rightarrow> ('p \<Rightarrow> 'r) \<Rightarrow> 'r \<Rightarrow> 'r" where
  "if_not_null x then_branch rest = (case x of Some p \<Rightarrow> then_branch p | None \<Rightarrow> rest)"

text \<open>
  \<open>execute\<close>, the dispatcher: fifteen tests in the order of the source, each returning
  from the function. No call is inside a \<open>try\<close>.
\<close>

definition execute ::
  "'w phenylCore \<Rightarrow> requestData \<Rightarrow> session option \<Rightarrow> ('w, responseData) js"
where
  "execute core reqData session = async (
     let ec = entityClient (clients core) in
     if_not_null (req_find reqData)
       (\<lambda>p. await (call (EntityCall Find p) (ec_find ec p))
              (\<lambda>result. return (wrap Res_find result))) (
     if_not_null (req_findOne reqData)
       (\<lambda>p. await (call (EntityCall FindOne p) (ec_findOne ec p))
              (\<lambda>result. return (wrap Res_findOne result))) (
     if_not_null (req_get reqData)
       (\<lambda>p. await (call (EntityCall Get p) (ec_get ec p))
              (\<lambda>result. return (wrap Res_get result))) (
     if_not_null (req_getByIds reqData)
       (\<lambda>p. await (call (EntityCall GetByIds p) (ec_getByIds ec p))
              (\<lambda>result. return (wrap Res_getByIds result))) (
     if_not_null (req_insert reqData)
       (\<lambda>p. await (call (EntityCall Insert p) (ec_insert ec p))
              (\<lambda>result. return (wrap Res_insert result))) (
     if_not_null (req_insertAndGet reqData)
       (\<lambda>p. await (call (EntityCall InsertAndGet p) (ec_insertAndGet ec p))
              (\<lambda>result. return (wrap Res_insertAndGet result))) (
     if_not_null (req_insertAndFetch reqData)
       (\<lambda>p. await (call (EntityCall InsertAndFetch p) (ec_insertAndFetch ec p))
              (\<lambda>result. return (wrap Res_insertAndFetch result))) (
     if_not_null (req_update reqData)
       (\<lambda>p. await (call (EntityCall Update p) (ec_update ec p))
              (\<lambda>result. return (wrap Res_update result))) (
     if_not_null (req_updateAndGet reqData)
       (\<lambda>p. await (call (EntityCall UpdateAndGet p) (ec_updateAndGet ec p))
              (\<lambda>result. return (wrap Res_updateAndGet result))) (
     if_not_null (req_updateAndFetch reqData)
       (\<lambda>p. await (call (EntityCall UpdateAndFetch p) (ec_updateAndFetch ec p))
              (\<lambda>result. return (wrap Res_updateAndFetch result))) (
     if_not_null (req_delete reqData)
       (\<lambda>p. await (call (EntityCall Delete p) (ec_delete ec p))
              (\<lambda>result. return (wrap Res_delete result))) (
     if_not_null (req_runCustomQuery reqData)
       (\<lambda>p. await (call (CustomQueryHook p)
                     (customQueryHandler core p session (clients core)))
              (\<lambda>result. return (wrap Res_runCustomQuery result))) (
     if_not_null (req_runCustomCommand reqData)
       (\<lambda>p. await (call (CustomCommandHook p)
                     (customCommandHandler core p session (clients core)))
              (\<lambda>result. return (wrap Res_runCustomCommand result))) (
     if_not_null (req_login reqData)
       (\<lambda>c. await (login core c session)
              (\<lambda>result. return (wrap Res_login result))) (
     if_not_null (req_logout reqData)
       (\<lambda>c. await (logout core c session)
              (\<lambda>result. return (wrap Res_logout result))) (
     return (Res_error (createErrorResult (new_Error ''Invalid method name.'')
                          (Some NotFound)))
     ))))))))))))))))"

text \<open>
  \<open>run\<close>, the entry point. The Session Store's \<open>get\<close> is awaited before the \<open>try\<close>
  block opens. Inside it the shape check, the ACL hook and the validation hook run in
  this order; the call of the execution wrapper is returned without \<open>await\<close>, so its
  outcome is the outcome of the \<open>try\<close> body as it stands.

  \<open>assertValidRequestData\<close> of \<open>phenyl-utils\<close> is not among the sources: it is a
  parameter, a check that either passes (\<open>None\<close>) or throws.
\<close>

definition run ::
  "(requestData \<Rightarrow> js_error option) \<Rightarrow> 'w phenylCore \<Rightarrow> requestData \<Rightarrow> string option
    \<Rightarrow> ('w, responseData) js"
where
  "run assertValidRequestData core reqData sessionId = async (
     await (call (SessionGet sessionId) (sc_get (sessionClient (clients core)) sessionId))
       (\<lambda>session.
          try_catch
            (case assertValidRequestData reqData of
               Some e \<Rightarrow> throw e
             | None \<Rightarrow>
               await (call AclHook (aclHandler core reqData session (clients core)))
                 (\<lambda>isAccessible.
                    if \<not> isAccessible
                    then return (Res_error (createErrorResult
                                   (new_Error ''Authorization Required.'') (Some Unauthorized)))
                    else
                      await (call ValidationHook
                               (validationHandler core reqData session (clients core)))
                        (\<lambda>isValid.
                           if \<not> isValid
                           then return (Res_error (createErrorResult
                                          (new_Error ''Params are not valid.'') (Some BadRequest)))
                           else
                             invoke ExecutionWrapperHook
                               (executionWrapper core reqData session (clients core)
                                  (execute core)))))
            (\<lambda>e. return (Res_error (createErrorResult e None)))))"

section \<open>The Standard User strategy\<close>

text \<open>
  The entity client of the strategy: \<open>findOne\<close> resolves to the matched entity and its
  version, and fails (throws or rejects) when the lookup fails or nothing matches.

  The password transform is a function of the caller's: it returns the transformed
  value (\<open>Inr\<close>) or throws (\<open>Inl\<close>).
\<close>

record findOneResult =
  fr_entity :: entity
  fr_versionId :: string

record 'w userEntityClient =
  uec_findOne :: "findOneQuery \<Rightarrow> ('w, findOneResult) ext"

record 'w standardUserDefinitionParams =
  p_entityClient :: "'w userEntityClient"
  p_encrypt :: "(jsval \<Rightarrow> js_error + jsval) option"
  p_accountPropName :: "string option"
  p_passwordPropName :: "string option"
  p_ttl :: "int option"

record 'w standardUserDefinition =
  ud_entityClient :: "'w userEntityClient"
  ud_encrypt :: "jsval \<Rightarrow> js_error + jsval"
  ud_accountPropName :: string
  ud_passwordPropName :: string
  ud_ttl :: int

text \<open>
  \<open>x || d\<close> on an optional parameter: \<open>d\<close> when \<open>x\<close> is falsy. An absent parameter
  is falsy; so are the number \<open>0\<close> and the empty string; a function never is.
\<close>

definition or_fun :: "'f option \<Rightarrow> 'f \<Rightarrow> 'f" where
  "or_fun x d = (case x of None \<Rightarrow> d | Some f \<Rightarrow> f)"

definition or_string :: "string option \<Rightarrow> string \<Rightarrow> string" where
  "or_string x d = (case x of None \<Rightarrow> d | Some s \<Rightarrow> if s = [] then d else s)"

definition or_number :: "int option \<Rightarrow> int \<Rightarrow> int" where
  "or_number x d = (case x of None \<Rightarrow> d | Some n \<Rightarrow> if n = 0 then d else n)"

text \<open>
  The constructor. \<open>powerCrypt\<close>, the default transform, comes from a package outside
  the sources and is a parameter.
\<close>

definition StandardUserDefinition ::
  "(jsval \<Rightarrow> js_error + jsval) \<Rightarrow> 'w standardUserDefinitionParams \<Rightarrow> 'w standardUserDefinition"
where
  "StandardUserDefinition powerCrypt params = \<lparr>
     ud_entityClient = p_entityClient params,
     ud_encrypt = or_fun (p_encrypt params) powerCrypt,
     ud_accountPropName = or_string (p_accountPropName params) ''account'',
     ud_passwordPropName = or_string (p_passwordPropName params) ''password'',
     ud_ttl = or_number (p_ttl params) (60 * 60 * 24 * 365) \<rparr>"

text \<open>
  The clock: \<open>Date.now()\<close> reads the world's time in milliseconds, and
  \<open>date_render\<close> is the ISO-8601 rendering of a valid time value. Both belong to the
  host.
\<close>

record 'w date =
  date_now :: "'w \<Rightarrow> int"
  date_render :: "int \<Rightarrow> string"

text \<open>
  \<open>new Date(t).toISOString()\<close>: a time value is valid within 8.64e15 milliseconds of
  the epoch; on an invalid date \<open>toISOString\<close> throws a \<open>RangeError\<close>.
\<close>

definition toISOString :: "'w date \<Rightarrow> int \<Rightarrow> js_error + string" where
  "toISOString date t =
     (if \<bar>t\<bar> \<le> 8640000000000000 then Inr (date_render date t)
      else Inl (new_Error ''Invalid time value''))"

definition read :: "('w \<Rightarrow> 'a) \<Rightarrow> ('w, 'a) js" where
  "read f = (\<lambda>(w, tr). (Resolved (f w), (w, tr)))"

record authenticationResultOf =
  ar_preSession :: preSession
  ar_user :: entity
  ar_versionId :: string

text \<open>
  \<open>authorize\<close>: the two credentials are read before the \<open>try\<close> block. Inside it
  the filter is built, which calls the transform on the password, then the lookup is
  awaited, then the clock is read and the expiry rendered. The handler rethrows every
  exception of the block, the transform's and the rendering's included, as
  \<open>Unauthorized\<close> with the same message.
\<close>

definition authorize ::
  "'w date \<Rightarrow> 'w standardUserDefinition \<Rightarrow> loginCommand \<Rightarrow> session option
    \<Rightarrow> ('w, authenticationResultOf) js"
where
  "authorize date this loginCommand session = async (
     let accountPropName = ud_accountPropName this;
         passwordPropName = ud_passwordPropName this;
         ttl = ud_ttl this;
         credentials = lc_credentials loginCommand;
         entityName = lc_entityName loginCommand;
         account = get_prop credentials accountPropName;
         password = get_prop credentials passwordPropName
     in
     try_catch
       (case ud_encrypt this password of
          Inl e \<Rightarrow> throw e
        | Inr encrypted \<Rightarrow>
          let query = \<lparr> q_entityName = entityName,
                         q_where = object2 accountPropName account
                                     passwordPropName encrypted \<rparr>
          in
          await (call (UserFindOne query) (uec_findOne (ud_entityClient this) query))
            (\<lambda>result.
               let user = fr_entity result in
               await (read (date_now date))
                 (\<lambda>now.
                    case toISOString date (now + ttl * 1000) of
                      Inl e \<Rightarrow> throw e
                    | Inr expiredAt \<Rightarrow>
                      let preSession = \<lparr> ps_expiredAt = expiredAt,
                                           ps_entityName = entityName,
                                           ps_userId = e_id user \<rparr>
                      in return \<lparr> ar_preSession = preSession, ar_user = user,
                                  ar_versionId = fr_versionId result \<rparr>)))
       (\<lambda>e. throw (createServerError (message e) Unauthorized)))"

section \<open>The envelope as the spec describes it\<close>

text \<open>The fixed priority order of the variants (spec 4.1, step 6).\<close>

definition all_variants :: "variant list" where
  "all_variants = [Find, FindOne, Get, GetByIds, Insert, InsertAndGet, InsertAndFetch,
     Update, UpdateAndGet, UpdateAndFetch, Delete, RunCustomQuery, RunCustomCommand,
     Login, Logout]"

fun is_populated :: "variant \<Rightarrow> requestData \<Rightarrow> bool" where
  "is_populated Find r = (req_find r \<noteq> None)"
| "is_populated FindOne r = (req_findOne r \<noteq> None)"
| "is_populated Get r = (req_get r \<noteq> None)"
| "is_populated GetByIds r = (req_getByIds r \<noteq> None)"
| "is_populated Insert r = (req_insert r \<noteq> None)"
| "is_populated InsertAndGet r = (req_insertAndGet r \<noteq> None)"
| "is_populated InsertAndFetch r = (req_insertAndFetch r \<noteq> None)"
| "is_populated Update r = (req_update r \<noteq> None)"
| "is_populated UpdateAndGet r = (req_updateAndGet r \<noteq> None)"
| "is_populated UpdateAndFetch r = (req_updateAndFetch r \<noteq> None)"
| "is_populated Delete r = (req_delete r \<noteq> None)"
| "is_populated RunCustomQuery r = (req_runCustomQuery r \<noteq> None)"
| "is_populated RunCustomCommand r = (req_runCustomCommand r \<noteq> None)"
| "is_populated Login r = (req_login r \<noteq> None)"
| "is_populated Logout r = (req_logout r \<noteq> None)"

definition populated_variants :: "requestData \<Rightarrow> variant list" where
  "populated_variants r = filter (\<lambda>v. is_populated v r) all_variants"

definition first_populated :: "requestData \<Rightarrow> variant option" where
  "first_populated r = List.find (\<lambda>v. is_populated v r) all_variants"

definition empty_request :: requestData where
  "empty_request = \<lparr>
     req_find = None,
     req_findOne = None,
     req_get = None,
     req_getByIds = None,
     req_insert = None,
     req_insertAndGet = None,
     req_insertAndFetch = None,
     req_update = None,
     req_updateAndGet = None,
     req_updateAndFetch = None,
     req_delete = None,
     req_runCustomQuery = None,
     req_runCustomCommand = None,
     req_login = None,
     req_logout = None \<rparr>"

text \<open>The envelope that keeps one variant of \<open>r\<close> and has every other field null.\<close>

fun only :: "variant \<Rightarrow> requestData \<Rightarrow> requestData" where
  "only Find r = empty_request\<lparr> req_find := req_find r \<rparr>"
| "only FindOne r = empty_request\<lparr> req_findOne := req_findOne r \<rparr>"
| "only Get r = empty_request\<lparr> req_get := req_get r \<rparr>"
| "only GetByIds r = empty_request\<lparr> req_getByIds := req_getByIds r \<rparr>"
| "only Insert r = empty_request\<lparr> req_insert := req_insert r \<rparr>"
| "only InsertAndGet r = empty_request\<lparr> req_insertAndGet := req_insertAndGet r \<rparr>"
| "only InsertAndFetch r = empty_request\<lparr> req_insertAndFetch := req_insertAndFetch r \<rparr>"
| "only Update r = empty_request\<lparr> req_update := req_update r \<rparr>"
| "only UpdateAndGet r = empty_request\<lparr> req_updateAndGet := req_updateAndGet r \<rparr>"
| "only UpdateAndFetch r = empty_request\<lparr> req_updateAndFetch := req_updateAndFetch r \<rparr>"
| "only Delete r = empty_request\<lparr> req_delete := req_delete r \<rparr>"
| "only RunCustomQuery r = empty_request\<lparr> req_runCustomQuery := req_runCustomQuery r \<rparr>"
| "only RunCustomCommand r = empty_request\<lparr> req_runCustomCommand := req_runCustomCommand r \<rparr>"
| "only Login r = empty_request\<lparr> req_login := req_login r \<rparr>"
| "only Logout r = empty_request\<lparr> req_logout := req_logout r \<rparr>"

text \<open>
  The Operation Backend method, the payload and the result key that carry the name of a
  variant. The Operation Backend (the entity client) has the eleven methods of its
  record and no other.
\<close>

fun backend_method ::
  "'w entityClient \<Rightarrow> variant \<Rightarrow> (jsobj \<Rightarrow> ('w, jsobj resultOrError) ext) option" where
  "backend_method ec Find = Some (ec_find ec)"
| "backend_method ec FindOne = Some (ec_findOne ec)"
| "backend_method ec Get = Some (ec_get ec)"
| "backend_method ec GetByIds = Some (ec_getByIds ec)"
| "backend_method ec Insert = Some (ec_insert ec)"
| "backend_method ec InsertAndGet = Some (ec_insertAndGet ec)"
| "backend_method ec InsertAndFetch = Some (ec_insertAndFetch ec)"
| "backend_method ec Update = Some (ec_update ec)"
| "backend_method ec UpdateAndGet = Some (ec_updateAndGet ec)"
| "backend_method ec UpdateAndFetch = Some (ec_updateAndFetch ec)"
| "backend_method ec Delete = Some (ec_delete ec)"
| "backend_method ec RunCustomQuery = None"
| "backend_method ec RunCustomCommand = None"
| "backend_method ec Login = None"
| "backend_method ec Logout = None"

fun payload :: "variant \<Rightarrow> requestData \<Rightarrow> jsobj option" where
  "payload Find r = req_find r"
| "payload FindOne r = req_findOne r"
| "payload Get r = req_get r"
| "payload GetByIds r = req_getByIds r"
| "payload Insert r = req_insert r"
| "payload InsertAndGet r = req_insertAndGet r"
| "payload InsertAndFetch r = req_insertAndFetch r"
| "payload Update r = req_update r"
| "payload UpdateAndGet r = req_updateAndGet r"
| "payload UpdateAndFetch r = req_updateAndFetch r"
| "payload Delete r = req_delete r"
| "payload RunCustomQuery r = req_runCustomQuery r"
| "payload RunCustomCommand r = req_runCustomCommand r"
| "payload Login r = None"
| "payload Logout r = None"

fun result_key :: "variant \<Rightarrow> (jsobj \<Rightarrow> responseData) option" where
  "result_key Find = Some Res_find"
| "result_key FindOne = Some Res_findOne"
| "result_key Get = Some Res_get"
| "result_key GetByIds = Some Res_getByIds"
| "result_key Insert = Some Res_insert"
| "result_key InsertAndGet = Some Res_insertAndGet"
| "result_key InsertAndFetch = Some Res_insertAndFetch"
| "result_key Update = Some Res_update"
| "result_key UpdateAndGet = Some Res_updateAndGet"
| "result_key UpdateAndFetch = Some Res_updateAndFetch"
| "result_key Delete = Some Res_delete"
| "result_key RunCustomQuery = Some Res_runCustomQuery"
| "result_key RunCustomCommand = Some Res_runCustomCommand"
| "result_key Login = None"
| "result_key Logout = None"

text \<open>
  What the dispatcher makes of the call it awaits for a variant: a result with \<open>ok\<close>
  true goes under the variant's key, a result with \<open>ok\<close> false under \<open>error\<close>, and
  an exception of the call, thrown or rejected, rejects the dispatcher.
\<close>

definition delivered ::
  "('a \<Rightarrow> responseData) \<Rightarrow> 'a resultOrError outcome \<Rightarrow> responseData outcome" where
  "delivered key out = (case out of
       Resolved result \<Rightarrow> Resolved (case result of Ok x \<Rightarrow> key x | Failed e \<Rightarrow> Res_error e)
     | Rejected e \<Rightarrow> Rejected e
     | Thrown e \<Rightarrow> Rejected e)"

section \<open>A small deployment\<close>

text \<open>
  An in-memory session store, a backing store that echoes its command, and hooks, used
  to run the definitions on concrete requests.
\<close>

record world =
  sessions :: "session list"
  now_ms :: int

definition memory_sessionClient :: "world sessionClient" where
  "memory_sessionClient = \<lparr>
     sc_get = (\<lambda>sid w.
       (Resolved (case sid of None \<Rightarrow> None
                  | Some i \<Rightarrow> List.find (\<lambda>s. s_id s = i) (sessions w)), w)),
     sc_create = (\<lambda>ps w.
       (let s = \<lparr> s_id = ''sid-'' @ ps_userId ps, s_expiredAt = ps_expiredAt ps,
                  s_entityName = ps_entityName ps, s_userId = ps_userId ps \<rparr>
        in (Resolved s, w\<lparr> sessions := sessions w @ [s] \<rparr>))),
     sc_delete = (\<lambda>sid w.
       (Resolved (list_ex (\<lambda>s. s_id s = sid) (sessions w)),
        w\<lparr> sessions := filter (\<lambda>s. s_id s \<noteq> sid) (sessions w) \<rparr>)) \<rparr>"

text \<open>A session store that cannot be reached.\<close>

definition unreachable_sessionClient :: "world sessionClient" where
  "unreachable_sessionClient = \<lparr>
     sc_get = (\<lambda>sid w. (Rejected (new_Error ''session store unreachable''), w)),
     sc_create = (\<lambda>ps w. (Rejected (new_Error ''session store unreachable''), w)),
     sc_delete = (\<lambda>sid w. (Rejected (new_Error ''session store unreachable''), w)) \<rparr>"

definition echo :: "jsobj \<Rightarrow> (world, jsobj resultOrError) ext" where
  "echo p = (\<lambda>w. (Resolved (Ok p), w))"

definition missing :: "jsobj \<Rightarrow> (world, jsobj resultOrError) ext" where
  "missing p = (\<lambda>w. (Resolved (Failed \<lparr> er_type = Some NotFound,
                                          er_message = ''no such entity'' \<rparr>), w))"

definition broken :: "jsobj \<Rightarrow> (world, jsobj resultOrError) ext" where
  "broken p = (\<lambda>w. (Rejected (new_Error ''connection lost''), w))"

definition demo_entityClient :: "world entityClient" where
  "demo_entityClient = \<lparr>
     ec_find = echo, ec_findOne = echo, ec_get = missing, ec_getByIds = echo,
     ec_insert = echo, ec_insertAndGet = echo, ec_insertAndFetch = echo,
     ec_update = echo, ec_updateAndGet = echo, ec_updateAndFetch = echo,
     ec_delete = broken \<rparr>"

definition alice :: entity where
  "alice = \<lparr> e_id = ''u1'', e_props = [(''account'', JStr ''alice'')] \<rparr>"

definition demo_authentication ::
  "loginCommand \<Rightarrow> session option \<Rightarrow> world clientPool \<Rightarrow> (world, authenticationResult) ext"
where
  "demo_authentication c session pool = (\<lambda>w.
     if get_prop (lc_credentials c) ''account'' = JStr ''alice''
        \<and> get_prop (lc_credentials c) ''password'' = JStr ''secret''
     then (Resolved (AuthOk \<lparr> ps_expiredAt = ''2030-01-01T00:00:00.000Z'',
                              ps_entityName = lc_entityName c, ps_userId = e_id alice \<rparr>
                       alice ''v1''), w)
     else (Resolved (AuthFailed (new_Error ''wrong credentials'') Unauthorized), w))"

text \<open>
  The hooks: a request needs a session unless it is a login; an insert of the empty
  object is not valid; the wrapper passes the request on to the dispatcher.
\<close>

definition demo_core :: "world phenylCore" where
  "demo_core = \<lparr>
     clients = \<lparr> sessionClient = memory_sessionClient, entityClient = demo_entityClient \<rparr>,
     aclHandler = (\<lambda>r session pool w.
       (Resolved (case session of Some s \<Rightarrow> True | None \<Rightarrow> req_login r \<noteq> None), w)),
     validationHandler = (\<lambda>r session pool w. (Resolved (req_insert r \<noteq> Some []), w)),
     customQueryHandler = (\<lambda>p session pool. echo p),
     customCommandHandler = (\<lambda>p session pool. echo p),
     authenticationHandler = demo_authentication,
     executionWrapper = (\<lambda>r session pool next. next r session) \<rparr>"

definition offline_core :: "world phenylCore" where
  "offline_core = demo_core\<lparr> clients :=
     \<lparr> sessionClient = unreachable_sessionClient, entityClient = demo_entityClient \<rparr> \<rparr>"

definition bob_session :: session where
  "bob_session = \<lparr> s_id = ''sid-u2'', s_expiredAt = ''2030-01-01T00:00:00.000Z'',
     s_entityName = ''user'', s_userId = ''u2'' \<rparr>"

definition world0 :: world where
  "world0 = \<lparr> sessions = [bob_session], now_ms = 5000 \<rparr>"

text \<open>An envelope with every field populated, and the one-variant envelopes cut from it.\<close>

definition full_request :: requestData where
  "full_request = \<lparr>
     req_find = Some [(''op'', JStr ''find'')],
     req_findOne = Some [(''op'', JStr ''findOne'')],
     req_get = Some [(''op'', JStr ''get'')],
     req_getByIds = Some [(''op'', JStr ''getByIds'')],
     req_insert = Some [(''op'', JStr ''insert'')],
     req_insertAndGet = Some [(''op'', JStr ''insertAndGet'')],
     req_insertAndFetch = Some [(''op'', JStr ''insertAndFetch'')],
     req_update = Some [(''op'', JStr ''update'')],
     req_updateAndGet = Some [(''op'', JStr ''updateAndGet'')],
     req_updateAndFetch = Some [(''op'', JStr ''updateAndFetch'')],
     req_delete = Some [(''op'', JStr ''delete'')],
     req_runCustomQuery = Some [(''op'', JStr ''runCustomQuery'')],
     req_runCustomCommand = Some [(''op'', JStr ''runCustomCommand'')],
     req_login = Some \<lparr> lc_entityName = ''user'',
       lc_credentials = [(''account'', JStr ''alice''), (''password'', JStr ''secret'')] \<rparr>,
     req_logout = Some \<lparr> lo_sessionId = ''sid-u2'' \<rparr> \<rparr>"

definition single :: "variant \<Rightarrow> requestData" where
  "single v = only v full_request"

text \<open>
  The Standard User strategy over a backing store that holds one account, with the
  password stored as the (toy) transform of \<open>secret\<close>. The transform reverses a
  string and refuses the empty one.
\<close>

definition toy_crypt :: "jsval \<Rightarrow> js_error + jsval" where
  "toy_crypt v = (case v of
       JStr s \<Rightarrow> if s = [] then Inl (new_Error ''empty password'') else Inr (JStr (rev s))
     | _ \<Rightarrow> Inl (new_Error ''not a string''))"

definition users_findOne :: "findOneQuery \<Rightarrow> (world, findOneResult) ext" where
  "users_findOne q = (\<lambda>w.
     if q_entityName q = ''user''
        \<and> q_where q = [(''account'', JStr ''alice''), (''password'', JStr ''terces'')]
     then (Resolved \<lparr> fr_entity = alice, fr_versionId = ''v1'' \<rparr>, w)
     else (Rejected (createServerError ''findOne() failed: no entity'' NotFound), w))"

definition demo_params :: "world standardUserDefinitionParams" where
  "demo_params = \<lparr> p_entityClient = \<lparr> uec_findOne = users_findOne \<rparr>,
     p_encrypt = Some toy_crypt, p_accountPropName = Some [], p_passwordPropName = None,
     p_ttl = Some 0 \<rparr>"

text \<open>A configuration whose sessions are to last ten to the thirteenth seconds.\<close>

definition long_ttl_params :: "world standardUserDefinitionParams" where
  "long_ttl_params = demo_params\<lparr> p_ttl := Some 10000000000000 \<rparr>"

definition demo_date :: "world date" where
  "demo_date = \<lparr> date_now = now_ms,
     date_render = (\<lambda>t. if t = 31536005000 then ''1971-01-01T00:00:05.000Z''
                              else ''1970-01-01T00:00:00.000Z'') \<rparr>"

definition alice_login :: "string \<Rightarrow> loginCommand" where
  "alice_login pw = \<lparr> lc_entityName = ''user'',
     lc_credentials = [(''account'', JStr ''alice''), (''password'', JStr pw)] \<rparr>"

section \<open>Running the promise combinators\<close>

lemmas js_defs = async_def await_def try_catch_def call_def invoke_def lift_def
  return_def throw_def read_def

lemmas demo_defs = demo_core_def memory_sessionClient_def demo_entityClient_def
  demo_authentication_def echo_def missing_def broken_def world0_def bob_session_def
  alice_def single_def full_request_def empty_request_def get_prop_def

lemmas user_defs = StandardUserDefinition_def or_fun_def or_string_def or_number_def
  demo_params_def demo_date_def users_findOne_def toy_crypt_def alice_login_def alice_def
  world0_def bob_session_def get_prop_def object2_def set_prop_def createServerError_def
  toISOString_def new_Error_def

section \<open>The authorization pipeline\<close>

text \<open>
  C2. When the ACL hook returns false, \<open>run\<close> resolves to
  \<open>{error: Unauthorized("Authorization Required.")}\<close>, and the calls it has made are the
  Session Store's \<open>get\<close> and the ACL hook, nothing else: the validation hook, the
  execution wrapper and the Operation Backend are not called. (That the hook was reached
  says that the session lookup resolved and the shape check passed.)
\<close>

theorem run_acl_denied:
  assumes "sc_get (sessionClient (clients core)) sessionId w = (Resolved session, w1)"
      and "assertValidRequestData reqData = None"
      and "aclHandler core reqData session (clients core) w1 = (Resolved False, w2)"
  shows "run assertValidRequestData core reqData sessionId (w, tr) =
           (Resolved (Res_error \<lparr> er_type = Some Unauthorized,
                                   er_message = ''Authorization Required.'' \<rparr>),
            (w2, tr @ [SessionGet sessionId, AclHook]))"
  using assms by (simp add: run_def js_defs createErrorResult_def new_Error_def)

theorem run_acl_denied_witness:
  "sc_get (sessionClient (clients demo_core)) None world0 = (Resolved None, world0)
   \<and> aclHandler demo_core (single Find) None (clients demo_core) world0
       = (Resolved False, world0)
   \<and> run (\<lambda>r. None) demo_core (single Find) None (world0, []) =
       (Resolved (Res_error \<lparr> er_type = Some Unauthorized,
                               er_message = ''Authorization Required.'' \<rparr>),
        (world0, [SessionGet None, AclHook]))"
proof -
  have get: "sc_get (sessionClient (clients demo_core)) None world0 = (Resolved None, world0)"
    by (simp add: demo_defs)
  have acl: "aclHandler demo_core (single Find) None (clients demo_core) world0
               = (Resolved False, world0)"
    by (simp add: demo_defs)
  show ?thesis
    using get acl run_acl_denied [OF get _ acl, of "\<lambda>r. None" "[]"] by simp
qed

text \<open>
  C7. When the ACL hook returns true and the validation hook returns false, \<open>run\<close>
  resolves to \<open>{error: BadRequest("Params are not valid.")}\<close>, and the calls it has made
  are the Session Store's \<open>get\<close>, the ACL hook and the validation hook: the execution
  wrapper and the Operation Backend are not called.
\<close>

theorem run_validation_failed:
  assumes "sc_get (sessionClient (clients core)) sessionId w = (Resolved session, w1)"
      and "assertValidRequestData reqData = None"
      and "aclHandler core reqData session (clients core) w1 = (Resolved True, w2)"
      and "validationHandler core reqData session (clients core) w2 = (Resolved False, w3)"
  shows "run assertValidRequestData core reqData sessionId (w, tr) =
           (Resolved (Res_error \<lparr> er_type = Some BadRequest,
                                   er_message = ''Params are not valid.'' \<rparr>),
            (w3, tr @ [SessionGet sessionId, AclHook, ValidationHook]))"
  using assms by (simp add: run_def js_defs createErrorResult_def new_Error_def)

theorem run_validation_failed_witness:
  "sc_get (sessionClient (clients demo_core)) (Some ''sid-u2'') world0
     = (Resolved (Some bob_session), world0)
   \<and> aclHandler demo_core (empty_request\<lparr> req_insert := Some [] \<rparr>) (Some bob_session)
       (clients demo_core) world0 = (Resolved True, world0)
   \<and> validationHandler demo_core (empty_request\<lparr> req_insert := Some [] \<rparr>)
       (Some bob_session) (clients demo_core) world0 = (Resolved False, world0)
   \<and> run (\<lambda>r. None) demo_core (empty_request\<lparr> req_insert := Some [] \<rparr>)
       (Some ''sid-u2'') (world0, []) =
       (Resolved (Res_error \<lparr> er_type = Some BadRequest,
                               er_message = ''Params are not valid.'' \<rparr>),
        (world0, [SessionGet (Some ''sid-u2''), AclHook, ValidationHook]))"
proof -
  let ?r = "empty_request\<lparr> req_insert := Some [] \<rparr>"
  have get: "sc_get (sessionClient (clients demo_core)) (Some ''sid-u2'') world0
               = (Resolved (Some bob_session), world0)"
    by (simp add: demo_defs)
  have acl: "aclHandler demo_core ?r (Some bob_session) (clients demo_core) world0
               = (Resolved True, world0)"
    by (simp add: demo_defs)
  have val: "validationHandler demo_core ?r (Some bob_session) (clients demo_core) world0
               = (Resolved False, world0)"
    by (simp add: demo_defs)
  show ?thesis
    using get acl val run_validation_failed [OF get _ acl val, of "\<lambda>r. None" "[]"]
    by simp
qed

section \<open>Login and logout\<close>

text \<open>
  C8. When the authentication hook succeeds, \<open>login\<close> calls the Session Store's
  \<open>create\<close> with the hook's pre-session, and with the session that \<open>create\<close>
  returns it resolves to \<open>{ok: 1, user, session}\<close>. When the hook returns a failure,
  \<open>login\<close> resolves to the error result of the hook's error, with the hook's kind, and
  does not call \<open>create\<close>.
\<close>

theorem login_result:
  assumes "authenticationHandler core c session (clients core) w = (Resolved result, w1)"
  shows "(result = AuthFailed err k \<longrightarrow>
            login core c session (w, tr) =
              (Resolved (Failed \<lparr> er_type = Some k, er_message = message err \<rparr>),
               (w1, tr @ [AuthenticationHook c])))
       \<and> (result = AuthOk ps user vid \<longrightarrow>
            snd (snd (login core c session (w, tr))) =
              tr @ [AuthenticationHook c, SessionCreate ps])
       \<and> (result = AuthOk ps user vid
            \<and> sc_create (sessionClient (clients core)) ps w1 = (Resolved newSession, w2) \<longrightarrow>
            login core c session (w, tr) =
              (Resolved (Ok \<lparr> lr_user = user, lr_session = newSession \<rparr>),
               (w2, tr @ [AuthenticationHook c, SessionCreate ps])))"
  using assms
  by (simp add: login_def js_defs createErrorResult_def split: prod.split outcome.split)

theorem login_result_witness:
  "login demo_core (alice_login ''secret'') None (world0, []) =
     (Resolved (Ok \<lparr> lr_user = alice,
        lr_session = \<lparr> s_id = ''sid-u1'', s_expiredAt = ''2030-01-01T00:00:00.000Z'',
                       s_entityName = ''user'', s_userId = ''u1'' \<rparr> \<rparr>),
      (world0\<lparr> sessions := [bob_session,
         \<lparr> s_id = ''sid-u1'', s_expiredAt = ''2030-01-01T00:00:00.000Z'',
           s_entityName = ''user'', s_userId = ''u1'' \<rparr>] \<rparr>,
       [AuthenticationHook (alice_login ''secret''),
        SessionCreate \<lparr> ps_expiredAt = ''2030-01-01T00:00:00.000Z'',
                        ps_entityName = ''user'', ps_userId = ''u1'' \<rparr>]))
   \<and> login demo_core (alice_login ''guess'') None (world0, []) =
     (Resolved (Failed \<lparr> er_type = Some Unauthorized, er_message = ''wrong credentials'' \<rparr>),
      (world0, [AuthenticationHook (alice_login ''guess'')]))"
proof -
  let ?ps = "\<lparr> ps_expiredAt = ''2030-01-01T00:00:00.000Z'', ps_entityName = ''user'',
                ps_userId = ''u1'' \<rparr>"
  let ?s = "\<lparr> s_id = ''sid-u1'', s_expiredAt = ''2030-01-01T00:00:00.000Z'',
               s_entityName = ''user'', s_userId = ''u1'' \<rparr>"
  have good: "authenticationHandler demo_core (alice_login ''secret'') None (clients demo_core)
                world0 = (Resolved (AuthOk ?ps alice ''v1''), world0)"
    by (simp add: demo_defs alice_login_def)
  have new: "sc_create (sessionClient (clients demo_core)) ?ps world0
               = (Resolved ?s, world0\<lparr> sessions := [bob_session, ?s] \<rparr>)"
    by (simp add: demo_defs Let_def)
  have bad: "authenticationHandler demo_core (alice_login ''guess'') None (clients demo_core)
               world0 = (Resolved (AuthFailed (new_Error ''wrong credentials'') Unauthorized),
                         world0)"
    by (simp add: demo_defs alice_login_def)
  show ?thesis
    using new
      login_result [OF good, where ps = ?ps and user = alice and vid = "''v1''"
        and newSession = ?s and ?w2.0 = "world0\<lparr> sessions := [bob_session, ?s] \<rparr>"
        and tr = "[]"]
      login_result [OF bad, where err = "new_Error ''wrong credentials''"
        and k = Unauthorized and tr = "[]"]
    by (simp add: new_Error_def)
qed

text \<open>
  C9. \<open>logout\<close> calls the Session Store's \<open>delete\<close> with the command's session id,
  once. When \<open>delete\<close> reports that no record existed the result is
  \<open>BadRequest("sessionId not found")\<close>; when it reports a removal the result is
  \<open>{ok: 1}\<close>; when it throws or rejects the result is the generic error result of the
  exception. In each case \<open>logout\<close> resolves.
\<close>

theorem logout_result:
  assumes "sc_delete (sessionClient (clients core)) (lo_sessionId c) w = (r, w1)"
  shows "snd (logout core c session (w, tr)) = (w1, tr @ [SessionDelete (lo_sessionId c)])
       \<and> (r = Resolved False \<longrightarrow>
            fst (logout core c session (w, tr)) =
              Resolved (Failed \<lparr> er_type = Some BadRequest,
                                  er_message = ''sessionId not found'' \<rparr>))
       \<and> (r = Resolved True \<longrightarrow> fst (logout core c session (w, tr)) = Resolved (Ok ()))
       \<and> (r = Thrown e \<or> r = Rejected e \<longrightarrow>
            fst (logout core c session (w, tr)) =
              Resolved (Failed \<lparr> er_type = None, er_message = message e \<rparr>))"
  using assms
  by (auto simp add: logout_def js_defs createErrorResult_def new_Error_def Let_def
      split: prod.split outcome.split)

theorem logout_result_witness:
  "logout demo_core \<lparr> lo_sessionId = ''sid-u2'' \<rparr> None (world0, []) =
     (Resolved (Ok ()), (world0\<lparr> sessions := [] \<rparr>, [SessionDelete ''sid-u2'']))
   \<and> logout demo_core \<lparr> lo_sessionId = ''sid-u9'' \<rparr> None (world0, []) =
     (Resolved (Failed \<lparr> er_type = Some BadRequest, er_message = ''sessionId not found'' \<rparr>),
      (world0, [SessionDelete ''sid-u9'']))
   \<and> logout offline_core \<lparr> lo_sessionId = ''sid-u2'' \<rparr> None (world0, []) =
     (Resolved (Failed \<lparr> er_type = None, er_message = ''session store unreachable'' \<rparr>),
      (world0, [SessionDelete ''sid-u2'']))"
proof -
  have found: "sc_delete (sessionClient (clients demo_core))
                 (lo_sessionId \<lparr> lo_sessionId = ''sid-u2'' \<rparr>) world0
               = (Resolved True, world0\<lparr> sessions := [] \<rparr>)"
    by (simp add: demo_defs)
  have unknown: "sc_delete (sessionClient (clients demo_core))
                   (lo_sessionId \<lparr> lo_sessionId = ''sid-u9'' \<rparr>) world0
                 = (Resolved False, world0)"
    by (simp add: demo_defs)
  have down: "sc_delete (sessionClient (clients offline_core))
                (lo_sessionId \<lparr> lo_sessionId = ''sid-u2'' \<rparr>) world0
              = (Rejected (new_Error ''session store unreachable''), world0)"
    by (simp add: offline_core_def demo_defs unreachable_sessionClient_def)
  show ?thesis
    using logout_result [OF found, where session = None and tr = "[]"]
      logout_result [OF unknown, where session = None and tr = "[]"]
      logout_result [OF down, where session = None and tr = "[]"
        and e = "new_Error ''session store unreachable''"]
    by (simp add: new_Error_def prod_eq_iff)
qed

section \<open>The Standard User strategy: constructor and authorize\<close>

text \<open>
  C10. The constructor substitutes the default for a falsy parameter: a \<open>ttl\<close> that is
  absent or \<open>0\<close> gives 31536000 seconds (one year), an account or password field name
  that is absent or the empty string gives \<open>account\<close> or \<open>password\<close>, and an absent
  transform gives the default transform.
\<close>

theorem constructor_defaults:
  "(p_ttl params = None \<or> p_ttl params = Some 0 \<longrightarrow>
      ud_ttl (StandardUserDefinition powerCrypt params) = 31536000)
   \<and> (p_accountPropName params = None \<or> p_accountPropName params = Some [] \<longrightarrow>
      ud_accountPropName (StandardUserDefinition powerCrypt params) = ''account'')
   \<and> (p_passwordPropName params = None \<or> p_passwordPropName params = Some [] \<longrightarrow>
      ud_passwordPropName (StandardUserDefinition powerCrypt params) = ''password'')
   \<and> (p_encrypt params = None \<longrightarrow>
      ud_encrypt (StandardUserDefinition powerCrypt params) = powerCrypt)"
  by (auto simp add: StandardUserDefinition_def or_number_def or_string_def or_fun_def)

theorem constructor_defaults_witness:
  "p_ttl demo_params = Some 0
   \<and> ud_ttl (StandardUserDefinition toy_crypt demo_params) = 31536000
   \<and> p_accountPropName demo_params = Some []
   \<and> ud_accountPropName (StandardUserDefinition toy_crypt demo_params) = ''account''
   \<and> p_passwordPropName demo_params = None
   \<and> ud_passwordPropName (StandardUserDefinition toy_crypt demo_params) = ''password''
   \<and> ud_passwordPropName
        (StandardUserDefinition toy_crypt (demo_params\<lparr> p_passwordPropName := Some [] \<rparr>))
       = ''password''
   \<and> ud_encrypt (StandardUserDefinition toy_crypt (demo_params\<lparr> p_encrypt := None \<rparr>))
       = toy_crypt"
  using constructor_defaults [where params = demo_params and powerCrypt = toy_crypt]
    constructor_defaults [where params = "demo_params\<lparr> p_passwordPropName := Some [] \<rparr>"
      and powerCrypt = toy_crypt]
    constructor_defaults [where params = "demo_params\<lparr> p_encrypt := None \<rparr>"
      and powerCrypt = toy_crypt]
  by (simp add: demo_params_def)

text \<open>
  C4. When the backing-store lookup fails, thrown or rejected, whether because nothing
  matched or because the store failed, \<open>authorize\<close> rejects with an error of kind
  \<open>Unauthorized\<close> whose message is the message of the lookup's error. The error's own
  kind does not reach the result: a mismatch and a store failure with the same message
  give the same rejection. (The lookup is made with the value that the transform has
  returned for the password.)
\<close>

theorem authorize_failure:
  assumes "ud_encrypt this (get_prop (lc_credentials c) (ud_passwordPropName this))
             = Inr encrypted"
      and "uec_findOne (ud_entityClient this)
             \<lparr> q_entityName = lc_entityName c,
               q_where = object2
                 (ud_accountPropName this)
                 (get_prop (lc_credentials c) (ud_accountPropName this))
                 (ud_passwordPropName this) encrypted \<rparr>
             w = (r, w1)"
      and "r = Rejected e \<or> r = Thrown e"
  shows "authorize date this c session (w, tr) =
           (Rejected (JsError (message e) (Some Unauthorized)),
            (w1, tr @ [UserFindOne
               \<lparr> q_entityName = lc_entityName c,
                 q_where = object2
                   (ud_accountPropName this)
                   (get_prop (lc_credentials c) (ud_accountPropName this))
                   (ud_passwordPropName this) encrypted \<rparr>]))"
  using assms
  by (auto simp add: authorize_def js_defs createServerError_def Let_def)

theorem authorize_failure_witness:
  "authorize demo_date (StandardUserDefinition toy_crypt demo_params)
     (alice_login ''guess'') None (world0, [])
     = (Rejected (JsError ''findOne() failed: no entity'' (Some Unauthorized)),
        (world0, [UserFindOne \<lparr> q_entityName = ''user'',
           q_where = [(''account'', JStr ''alice''), (''password'', JStr ''sseug'')] \<rparr>]))"
proof -
  let ?ud = "StandardUserDefinition toy_crypt demo_params"
  let ?c = "alice_login ''guess''"
  have transformed: "ud_encrypt ?ud (get_prop (lc_credentials ?c) (ud_passwordPropName ?ud))
                       = Inr (JStr ''sseug'')"
    by (simp add: user_defs)
  have lookup: "uec_findOne (ud_entityClient ?ud)
             \<lparr> q_entityName = lc_entityName ?c,
               q_where = object2
                 (ud_accountPropName ?ud)
                 (get_prop (lc_credentials ?c) (ud_accountPropName ?ud))
                 (ud_passwordPropName ?ud) (JStr ''sseug'') \<rparr>
             world0 = (Rejected (createServerError ''findOne() failed: no entity'' NotFound),
                       world0)"
    by (simp add: user_defs)
  show ?thesis
    using authorize_failure [OF transformed lookup, where date = demo_date and session = None
        and tr = "[]" and e = "createServerError ''findOne() failed: no entity'' NotFound"]
    by (simp add: user_defs)
qed

text \<open>
  C3, as amended. \<open>authorize\<close> first calls the transform on the password. When the
  transform throws, \<open>authorize\<close> rejects as \<open>Unauthorized\<close> without a lookup. When it
  returns, \<open>authorize\<close> calls \<open>findOne\<close>, once, with the object literal that sets the
  account field to the given account value and then the password field to the value
  the transform returned. So the filter equates the password field to the transformed
  value, which is the plaintext exactly when the transform returned the plaintext, and,
  where the two field names differ, the account field to the account value (one name
  for both leaves the literal one entry). On a match, with \<open>t\<close> the time read after the
  lookup plus \<open>ttl * 1000\<close> milliseconds: when \<open>t\<close> is a valid time value the result
  holds the pre-session with \<open>expiredAt\<close> the rendering of \<open>t\<close>, the entity name of the
  command and the matched record's id, together with the matched record and its
  version; when \<open>t\<close> is outside the range of \<open>Date\<close>, \<open>authorize\<close> rejects as
  \<open>Unauthorized\<close>.
\<close>

theorem authorize_query_and_result:
  "let acc = ud_accountPropName this;
       pw = ud_passwordPropName this;
       account = get_prop (lc_credentials c) acc;
       password = get_prop (lc_credentials c) pw;
       q = \<lparr> q_entityName = lc_entityName c,
             q_where = object2 acc account pw encrypted \<rparr>;
       t = date_now date w1 + ud_ttl this * 1000
   in (ud_encrypt this password = Inl e \<longrightarrow>
         authorize date this c session (w, tr) =
           (Rejected (JsError (message e) (Some Unauthorized)), (w, tr)))
      \<and> (ud_encrypt this password = Inr encrypted \<longrightarrow>
           snd (snd (authorize date this c session (w, tr))) = tr @ [UserFindOne q]
         \<and> map_of (q_where q) pw = Some encrypted
         \<and> (map_of (q_where q) pw = Some password) = (encrypted = password)
         \<and> (acc \<noteq> pw \<longrightarrow> map_of (q_where q) acc = Some account)
         \<and> fst ` set (q_where q) = {acc, pw}
         \<and> (uec_findOne (ud_entityClient this) q w = (Resolved result, w1) \<longrightarrow>
              (\<bar>t\<bar> \<le> 8640000000000000 \<longrightarrow>
                 authorize date this c session (w, tr) =
                   (Resolved \<lparr>
                      ar_preSession = \<lparr>
                        ps_expiredAt = date_render date t,
                        ps_entityName = lc_entityName c,
                        ps_userId = e_id (fr_entity result) \<rparr>,
                      ar_user = fr_entity result,
                      ar_versionId = fr_versionId result \<rparr>,
                    (w1, tr @ [UserFindOne q])))
            \<and> (8640000000000000 < \<bar>t\<bar> \<longrightarrow>
                 authorize date this c session (w, tr) =
                   (Rejected (JsError ''Invalid time value'' (Some Unauthorized)),
                    (w1, tr @ [UserFindOne q])))))"
  by (auto simp add: authorize_def js_defs Let_def object2_def set_prop_def toISOString_def
      createServerError_def new_Error_def split: prod.split outcome.split sum.split)

theorem authorize_query_and_result_witness:
  "authorize demo_date (StandardUserDefinition toy_crypt demo_params)
     (alice_login ''secret'') None (world0, []) =
     (Resolved \<lparr>
        ar_preSession = \<lparr> ps_expiredAt = ''1971-01-01T00:00:05.000Z'',
                          ps_entityName = ''user'', ps_userId = ''u1'' \<rparr>,
        ar_user = alice, ar_versionId = ''v1'' \<rparr>,
      (world0, [UserFindOne \<lparr> q_entityName = ''user'',
         q_where = [(''account'', JStr ''alice''), (''password'', JStr ''terces'')] \<rparr>]))
   \<and> authorize demo_date (StandardUserDefinition toy_crypt demo_params)
       (alice_login []) None (world0, [])
     = (Rejected (JsError ''empty password'' (Some Unauthorized)), (world0, []))
   \<and> authorize demo_date (StandardUserDefinition toy_crypt long_ttl_params)
       (alice_login ''secret'') None (world0, [])
     = (Rejected (JsError ''Invalid time value'' (Some Unauthorized)),
        (world0, [UserFindOne \<lparr> q_entityName = ''user'',
             q_where = [(''account'', JStr ''alice''), (''password'', JStr ''terces'')] \<rparr>]))"
  using
    authorize_query_and_result [where this = "StandardUserDefinition toy_crypt demo_params"
      and c = "alice_login ''secret''" and date = demo_date and session = None
      and w = world0 and tr = "[]" and encrypted = "JStr ''terces''"
      and result = "\<lparr> fr_entity = alice, fr_versionId = ''v1'' \<rparr>" and ?w1.0 = world0]
    authorize_query_and_result [where this = "StandardUserDefinition toy_crypt demo_params"
      and c = "alice_login []" and date = demo_date and session = None
      and w = world0 and tr = "[]"
      and e = "new_Error ''empty password''"]
    authorize_query_and_result [where this = "StandardUserDefinition toy_crypt long_ttl_params"
      and c = "alice_login ''secret''" and date = demo_date and session = None
      and w = world0 and tr = "[]"
      and encrypted = "JStr ''terces''"
      and result = "\<lparr> fr_entity = alice, fr_versionId = ''v1'' \<rparr>" and ?w1.0 = world0]
  by (simp add: user_defs long_ttl_params_def Let_def)

text \<open>
  C3, as stated, fails on two well-formed inputs. With a \<open>ttl\<close> of ten to the
  thirteenth seconds the lookup matches (the store resolves to the account), yet
  \<open>authorize\<close> returns no pre-session: the expiry is past the range of \<open>Date\<close>,
  \<open>toISOString\<close> throws inside the \<open>try\<close> block, and the result is a rejection of
  kind \<open>Unauthorized\<close>. With a transform that throws on the given password, here the
  empty one, \<open>authorize\<close> rejects without any call of \<open>findOne\<close>.
\<close>

theorem authorize_counterexample:
  "users_findOne \<lparr> q_entityName = ''user'',
      q_where = [(''account'', JStr ''alice''), (''password'', JStr ''terces'')] \<rparr> world0
     = (Resolved \<lparr> fr_entity = alice, fr_versionId = ''v1'' \<rparr>, world0)
   \<and> ud_ttl (StandardUserDefinition toy_crypt long_ttl_params) = 10000000000000
   \<and> authorize demo_date (StandardUserDefinition toy_crypt long_ttl_params)
       (alice_login ''secret'') None (world0, [])
     = (Rejected (JsError ''Invalid time value'' (Some Unauthorized)),
        (world0, [UserFindOne \<lparr> q_entityName = ''user'',
           q_where = [(''account'', JStr ''alice''), (''password'', JStr ''terces'')] \<rparr>]))
   \<and> authorize demo_date (StandardUserDefinition toy_crypt demo_params)
       (alice_login []) None (world0, [])
     = (Rejected (JsError ''empty password'' (Some Unauthorized)), (world0, []))"
  by (simp add: user_defs long_ttl_params_def Let_def authorize_def js_defs)

section \<open>The dispatcher\<close>

lemma all_variants_complete: "v \<in> set all_variants"
  by (cases v) (simp_all add: all_variants_def)

lemma find_as_filter:
  "List.find P xs = (case filter P xs of [] \<Rightarrow> None | x # rest \<Rightarrow> Some x)"
  by (induction xs) simp_all

lemma first_populated_Cons:
  "populated_variants r = v # others \<Longrightarrow> first_populated r = Some v"
  by (simp add: populated_variants_def first_populated_def find_as_filter)

lemma first_populated_Nil:
  "populated_variants r = [] \<Longrightarrow> first_populated r = None"
  by (simp add: populated_variants_def first_populated_def find_as_filter)

lemma execute_of_first_populated:
  assumes "first_populated r = Some v"
  shows "execute core r session s = execute core (only v r) session s"
  using assms
  by (cases v)
     (simp_all add: first_populated_def all_variants_def execute_def if_not_null_def
        empty_request_def Let_def split: if_splits option.splits)

lemma execute_of_none_populated:
  assumes "first_populated r = None"
  shows "execute core r session (w, tr) =
           (Resolved (Res_error \<lparr> er_type = Some NotFound,
                                   er_message = ''Invalid method name.'' \<rparr>), (w, tr))"
  using assms
  by (simp add: first_populated_def all_variants_def execute_def if_not_null_def
        js_defs createErrorResult_def new_Error_def Let_def split: if_splits)

lemma populated_only:
  "is_populated v r \<Longrightarrow> populated_variants (only v r) = [v]"
  by (cases v) (simp_all add: populated_variants_def all_variants_def empty_request_def)

lemma first_populated_is_populated:
  "first_populated r = Some v \<Longrightarrow> is_populated v r"
  unfolding first_populated_def by (auto simp add: find_Some_iff)

lemma populated_backend_payload:
  assumes "is_populated v r"
      and "backend_method ec v = Some m"
  shows "\<exists>p. payload v r = Some p"
  using assms by (cases v) auto

lemma execute_backend_branch:
  assumes "first_populated r = Some v"
      and "backend_method (entityClient (clients core)) v = Some m"
      and "result_key v = Some key"
      and "payload v r = Some p"
  shows "execute core r session (w, tr) =
           (delivered key (fst (m p w)), (snd (m p w), tr @ [EntityCall v p]))"
proof -
  have eq: "execute core r session (w, tr) = execute core (only v r) session (w, tr)"
    using assms(1) by (rule execute_of_first_populated)
  obtain out w1 where mw: "m p w = (out, w1)"
    by (cases "m p w")
  show ?thesis
    unfolding eq using assms(2-4) mw
    by (cases v; cases out)
       (auto simp add: execute_def if_not_null_def empty_request_def js_defs wrap_def
          delivered_def Let_def split: resultOrError.split)
qed

lemma execute_custom_query_branch:
  assumes "first_populated r = Some RunCustomQuery"
      and "req_runCustomQuery r = Some p"
  shows "execute core r session (w, tr) =
           (delivered Res_runCustomQuery
              (fst (customQueryHandler core p session (clients core) w)),
            (snd (customQueryHandler core p session (clients core) w),
             tr @ [CustomQueryHook p]))"
proof -
  have eq: "execute core r session (w, tr)
              = execute core (only RunCustomQuery r) session (w, tr)"
    using assms(1) by (rule execute_of_first_populated)
  obtain out w1 where hw: "customQueryHandler core p session (clients core) w = (out, w1)"
    by (cases "customQueryHandler core p session (clients core) w")
  show ?thesis
    unfolding eq using assms(2) hw
    by (cases out)
       (auto simp add: execute_def if_not_null_def empty_request_def js_defs wrap_def
          delivered_def Let_def split: resultOrError.split)
qed

lemma execute_custom_command_branch:
  assumes "first_populated r = Some RunCustomCommand"
      and "req_runCustomCommand r = Some p"
  shows "execute core r session (w, tr) =
           (delivered Res_runCustomCommand
              (fst (customCommandHandler core p session (clients core) w)),
            (snd (customCommandHandler core p session (clients core) w),
             tr @ [CustomCommandHook p]))"
proof -
  have eq: "execute core r session (w, tr)
              = execute core (only RunCustomCommand r) session (w, tr)"
    using assms(1) by (rule execute_of_first_populated)
  obtain out w1 where hw: "customCommandHandler core p session (clients core) w = (out, w1)"
    by (cases "customCommandHandler core p session (clients core) w")
  show ?thesis
    unfolding eq using assms(2) hw
    by (cases out)
       (auto simp add: execute_def if_not_null_def empty_request_def js_defs wrap_def
          delivered_def Let_def split: resultOrError.split)
qed

lemma execute_login_branch:
  assumes "first_populated r = Some Login"
      and "req_login r = Some c"
  shows "execute core r session s =
           (delivered Res_login (fst (login core c session s)),
            snd (login core c session s))"
proof -
  have eq: "execute core r session s = execute core (only Login r) session s"
    using assms(1) by (rule execute_of_first_populated)
  obtain out s1 where ls: "login core c session s = (out, s1)"
    by (cases "login core c session s")
  show ?thesis
    unfolding eq using assms(2) ls
    by (cases out)
       (auto simp add: execute_def if_not_null_def empty_request_def await_def async_def
          return_def wrap_def delivered_def Let_def split: resultOrError.split)
qed

lemma execute_logout_branch:
  assumes "first_populated r = Some Logout"
      and "req_logout r = Some c"
  shows "execute core r session s =
           (delivered Res_logout (fst (logout core c session s)),
            snd (logout core c session s))"
proof -
  have eq: "execute core r session s = execute core (only Logout r) session s"
    using assms(1) by (rule execute_of_first_populated)
  obtain out s1 where ls: "logout core c session s = (out, s1)"
    by (cases "logout core c session s")
  show ?thesis
    unfolding eq using assms(2) ls
    by (cases out)
       (auto simp add: execute_def if_not_null_def empty_request_def await_def async_def
          return_def wrap_def delivered_def Let_def split: resultOrError.split)
qed

text \<open>
  C6. The variants are tested in the fixed order \<open>all_variants\<close>. When \<open>v\<close> is the
  first populated variant of an envelope, whatever other variants are populated after
  it, \<open>execute\<close> handles \<open>v\<close> and nothing else. For one of the eleven backend
  variants it calls the backend method of that name with the variant's payload, once;
  for \<open>runCustomQuery\<close> and \<open>runCustomCommand\<close> it calls the custom handler with the
  payload and the session, once; for \<open>login\<close> and \<open>logout\<close> it runs the
  Authentication Controller on the command. In each case the outcome of that call is
  delivered under the variant's key or under \<open>error\<close>, and \<open>execute\<close> does what it
  does on the envelope that holds \<open>v\<close> alone. When no variant is populated,
  \<open>execute\<close> resolves to \<open>{error: NotFound("Invalid method name.")}\<close> without calling
  anything.
\<close>

theorem execute_priority:
  "(populated_variants r = v # others \<longrightarrow>
      is_populated v r
      \<and> populated_variants (only v r) = [v]
      \<and> execute core r session (w, tr) = execute core (only v r) session (w, tr)
      \<and> (backend_method (entityClient (clients core)) v = Some m \<and> result_key v = Some key \<longrightarrow>
           (\<exists>p. payload v r = Some p
              \<and> execute core r session (w, tr) =
                  (delivered key (fst (m p w)), (snd (m p w), tr @ [EntityCall v p]))))
      \<and> (v = RunCustomQuery \<longrightarrow>
           (\<exists>p. req_runCustomQuery r = Some p
              \<and> execute core r session (w, tr) =
                  (delivered Res_runCustomQuery
                     (fst (customQueryHandler core p session (clients core) w)),
                   (snd (customQueryHandler core p session (clients core) w),
                    tr @ [CustomQueryHook p]))))
      \<and> (v = RunCustomCommand \<longrightarrow>
           (\<exists>p. req_runCustomCommand r = Some p
              \<and> execute core r session (w, tr) =
                  (delivered Res_runCustomCommand
                     (fst (customCommandHandler core p session (clients core) w)),
                   (snd (customCommandHandler core p session (clients core) w),
                    tr @ [CustomCommandHook p]))))
      \<and> (v = Login \<longrightarrow>
           (\<exists>c. req_login r = Some c
              \<and> execute core r session (w, tr) =
                  (delivered Res_login (fst (login core c session (w, tr))),
                   snd (login core c session (w, tr)))))
      \<and> (v = Logout \<longrightarrow>
           (\<exists>c. req_logout r = Some c
              \<and> execute core r session (w, tr) =
                  (delivered Res_logout (fst (logout core c session (w, tr))),
                   snd (logout core c session (w, tr))))))
   \<and> (populated_variants r = [] \<longrightarrow>
      execute core r session (w, tr) =
        (Resolved (Res_error \<lparr> er_type = Some NotFound,
                                er_message = ''Invalid method name.'' \<rparr>), (w, tr)))"
proof (intro conjI impI)
  assume "populated_variants r = []"
  then have "first_populated r = None"
    by (rule first_populated_Nil)
  then show "execute core r session (w, tr) =
        (Resolved (Res_error \<lparr> er_type = Some NotFound,
                                er_message = ''Invalid method name.'' \<rparr>), (w, tr))"
    by (rule execute_of_none_populated)
next
  assume "populated_variants r = v # others"
  then have first: "first_populated r = Some v"
    by (rule first_populated_Cons)
  then show pop: "is_populated v r"
    by (rule first_populated_is_populated)
  then show "populated_variants (only v r) = [v]"
    by (rule populated_only)
  from first show "execute core r session (w, tr) = execute core (only v r) session (w, tr)"
    by (rule execute_of_first_populated)
  {
    assume "backend_method (entityClient (clients core)) v = Some m \<and> result_key v = Some key"
    then have m: "backend_method (entityClient (clients core)) v = Some m"
      and key: "result_key v = Some key"
      by simp_all
    from pop m obtain p where p: "payload v r = Some p"
      using populated_backend_payload by blast
    from execute_backend_branch [OF first m key p] p
    show "\<exists>p. payload v r = Some p
              \<and> execute core r session (w, tr) =
                  (delivered key (fst (m p w)), (snd (m p w), tr @ [EntityCall v p]))"
      by blast
  }
  {
    assume v: "v = RunCustomQuery"
    with pop obtain p where p: "req_runCustomQuery r = Some p"
      by auto
    show "\<exists>p. req_runCustomQuery r = Some p
              \<and> execute core r session (w, tr) =
                  (delivered Res_runCustomQuery
                     (fst (customQueryHandler core p session (clients core) w)),
                   (snd (customQueryHandler core p session (clients core) w),
                    tr @ [CustomQueryHook p]))"
      by (rule exI [of _ p]) (simp add: p execute_custom_query_branch [OF first [unfolded v] p])
  }
  {
    assume v: "v = RunCustomCommand"
    with pop obtain p where p: "req_runCustomCommand r = Some p"
      by auto
    show "\<exists>p. req_runCustomCommand r = Some p
              \<and> execute core r session (w, tr) =
                  (delivered Res_runCustomCommand
                     (fst (customCommandHandler core p session (clients core) w)),
                   (snd (customCommandHandler core p session (clients core) w),
                    tr @ [CustomCommandHook p]))"
      by (rule exI [of _ p]) (simp add: p execute_custom_command_branch [OF first [unfolded v] p])
  }
  {
    assume v: "v = Login"
    with pop obtain c where c: "req_login r = Some c"
      by auto
    show "\<exists>c. req_login r = Some c
              \<and> execute core r session (w, tr) =
                  (delivered Res_login (fst (login core c session (w, tr))),
                   snd (login core c session (w, tr)))"
      by (rule exI [of _ c]) (simp add: c execute_login_branch [OF first [unfolded v] c])
  }
  {
    assume v: "v = Logout"
    with pop obtain c where c: "req_logout r = Some c"
      by auto
    show "\<exists>c. req_logout r = Some c
              \<and> execute core r session (w, tr) =
                  (delivered Res_logout (fst (logout core c session (w, tr))),
                   snd (logout core c session (w, tr)))"
      by (rule exI [of _ c]) (simp add: c execute_logout_branch [OF first [unfolded v] c])
  }
qed

theorem execute_priority_witness:
  "populated_variants full_request = Find # tl all_variants
   \<and> execute demo_core full_request None (world0, [])
       = (Resolved (Res_find [(''op'', JStr ''find'')]),
          (world0, [EntityCall Find [(''op'', JStr ''find'')]]))
   \<and> populated_variants
        (empty_request\<lparr> req_get := Some [(''id'', JStr ''u7'')],
                         req_insert := Some [(''id'', JStr ''u8'')] \<rparr>) = [Get, Insert]
   \<and> execute demo_core
        (empty_request\<lparr> req_get := Some [(''id'', JStr ''u7'')],
                         req_insert := Some [(''id'', JStr ''u8'')] \<rparr>) None (world0, [])
       = (Resolved (Res_error \<lparr> er_type = Some NotFound, er_message = ''no such entity'' \<rparr>),
          (world0, [EntityCall Get [(''id'', JStr ''u7'')]]))
   \<and> execute demo_core
        (empty_request\<lparr> req_runCustomQuery := Some [(''name'', JStr ''count'')],
                         req_logout := Some \<lparr> lo_sessionId = ''sid-u2'' \<rparr> \<rparr>) None (world0, [])
       = (Resolved (Res_runCustomQuery [(''name'', JStr ''count'')]),
          (world0, [CustomQueryHook [(''name'', JStr ''count'')]]))
   \<and> execute demo_core
        (empty_request\<lparr> req_runCustomCommand := Some [(''name'', JStr ''reset'')],
                         req_login := Some (alice_login ''guess'') \<rparr>) None (world0, [])
       = (Resolved (Res_runCustomCommand [(''name'', JStr ''reset'')]),
          (world0, [CustomCommandHook [(''name'', JStr ''reset'')]]))
   \<and> execute demo_core
        (empty_request\<lparr> req_login := Some (alice_login ''guess''),
                         req_logout := Some \<lparr> lo_sessionId = ''sid-u2'' \<rparr> \<rparr>) None (world0, [])
       = (Resolved (Res_error \<lparr> er_type = Some Unauthorized,
                                 er_message = ''wrong credentials'' \<rparr>),
          (world0, [AuthenticationHook (alice_login ''guess'')]))
   \<and> execute demo_core
        (empty_request\<lparr> req_logout := Some \<lparr> lo_sessionId = ''sid-u2'' \<rparr> \<rparr>) None (world0, [])
       = (Resolved (Res_logout ()),
          (world0\<lparr> sessions := [] \<rparr>, [SessionDelete ''sid-u2'']))
   \<and> populated_variants empty_request = []
   \<and> execute demo_core empty_request None (world0, [])
       = (Resolved (Res_error \<lparr> er_type = Some NotFound,
                                 er_message = ''Invalid method name.'' \<rparr>), (world0, []))"
proof -
  let ?get = "empty_request\<lparr> req_get := Some [(''id'', JStr ''u7'')],
                             req_insert := Some [(''id'', JStr ''u8'')] \<rparr>"
  let ?query = "empty_request\<lparr> req_runCustomQuery := Some [(''name'', JStr ''count'')],
                               req_logout := Some \<lparr> lo_sessionId = ''sid-u2'' \<rparr> \<rparr>"
  let ?command = "empty_request\<lparr> req_runCustomCommand := Some [(''name'', JStr ''reset'')],
                                 req_login := Some (alice_login ''guess'') \<rparr>"
  let ?login = "empty_request\<lparr> req_login := Some (alice_login ''guess''),
                               req_logout := Some \<lparr> lo_sessionId = ''sid-u2'' \<rparr> \<rparr>"
  let ?logout = "empty_request\<lparr> req_logout := Some \<lparr> lo_sessionId = ''sid-u2'' \<rparr> \<rparr>"
  have full: "populated_variants full_request = Find # tl all_variants"
    by (simp add: populated_variants_def all_variants_def full_request_def)
  have get: "populated_variants ?get = Get # [Insert]"
    by (simp add: populated_variants_def all_variants_def empty_request_def)
  have query: "populated_variants ?query = RunCustomQuery # [Logout]"
    by (simp add: populated_variants_def all_variants_def empty_request_def)
  have command: "populated_variants ?command = RunCustomCommand # [Login]"
    by (simp add: populated_variants_def all_variants_def empty_request_def)
  have login: "populated_variants ?login = Login # [Logout]"
    by (simp add: populated_variants_def all_variants_def empty_request_def)
  have logout: "populated_variants ?logout = Logout # []"
    by (simp add: populated_variants_def all_variants_def empty_request_def)
  have none: "populated_variants empty_request = []"
    by (simp add: populated_variants_def all_variants_def empty_request_def)
  have a: "execute demo_core full_request None (world0, [])
       = (Resolved (Res_find [(''op'', JStr ''find'')]),
          (world0, [EntityCall Find [(''op'', JStr ''find'')]]))"
  proof -
    have named: "backend_method (entityClient (clients demo_core)) Find = Some echo
                  \<and> result_key Find = Some Res_find"
      by (simp add: demo_core_def demo_entityClient_def)
    from full named
      execute_priority [where r = full_request and v = Find
        and others = "tl all_variants" and core = demo_core and session = None
        and w = world0 and tr = "[]" and m = echo and key = Res_find]
    have "\<exists>p. payload Find full_request = Some p
            \<and> execute demo_core full_request None (world0, []) =
                (delivered Res_find (fst (echo p world0)),
                 (snd (echo p world0), [] @ [EntityCall Find p]))"
      by blast
    then show ?thesis
      by (auto simp add: full_request_def echo_def delivered_def)
  qed
  have b: "execute demo_core ?get None (world0, [])
       = (Resolved (Res_error \<lparr> er_type = Some NotFound, er_message = ''no such entity'' \<rparr>),
          (world0, [EntityCall Get [(''id'', JStr ''u7'')]]))"
  proof -
    have named: "backend_method (entityClient (clients demo_core)) Get = Some missing
                  \<and> result_key Get = Some Res_get"
      by (simp add: demo_core_def demo_entityClient_def)
    from get named
      execute_priority [where r = ?get and v = Get
        and others = "[Insert]" and core = demo_core and session = None
        and w = world0 and tr = "[]" and m = missing and key = Res_get]
    have "\<exists>p. payload Get ?get = Some p
            \<and> execute demo_core ?get None (world0, []) =
                (delivered Res_get (fst (missing p world0)),
                 (snd (missing p world0), [] @ [EntityCall Get p]))"
      by blast
    then show ?thesis
      by (auto simp add: empty_request_def missing_def delivered_def)
  qed
  have c: "execute demo_core ?query None (world0, [])
       = (Resolved (Res_runCustomQuery [(''name'', JStr ''count'')]),
          (world0, [CustomQueryHook [(''name'', JStr ''count'')]]))"
  proof -
    from query
      execute_priority [where r = ?query and v = RunCustomQuery
        and others = "[Logout]" and core = demo_core and session = None
        and w = world0 and tr = "[]"]
    have "\<exists>p. req_runCustomQuery ?query = Some p
            \<and> execute demo_core ?query None (world0, []) =
                (delivered Res_runCustomQuery
                   (fst (customQueryHandler demo_core p None (clients demo_core) world0)),
                 (snd (customQueryHandler demo_core p None (clients demo_core) world0),
                  [] @ [CustomQueryHook p]))"
      by blast
    then have "\<exists>p. req_runCustomQuery ?query = Some p
            \<and> execute demo_core ?query None (world0, []) =
                (delivered Res_runCustomQuery (fst (echo p world0)),
                 (snd (echo p world0), [] @ [CustomQueryHook p]))"
      by (simp add: demo_core_def)
    then show ?thesis
      by (auto simp add: empty_request_def echo_def delivered_def)
  qed
  have d: "execute demo_core ?command None (world0, [])
       = (Resolved (Res_runCustomCommand [(''name'', JStr ''reset'')]),
          (world0, [CustomCommandHook [(''name'', JStr ''reset'')]]))"
  proof -
    from command
      execute_priority [where r = ?command and v = RunCustomCommand
        and others = "[Login]" and core = demo_core and session = None
        and w = world0 and tr = "[]"]
    have "\<exists>p. req_runCustomCommand ?command = Some p
            \<and> execute demo_core ?command None (world0, []) =
                (delivered Res_runCustomCommand
                   (fst (customCommandHandler demo_core p None (clients demo_core) world0)),
                 (snd (customCommandHandler demo_core p None (clients demo_core) world0),
                  [] @ [CustomCommandHook p]))"
      by blast
    then have "\<exists>p. req_runCustomCommand ?command = Some p
            \<and> execute demo_core ?command None (world0, []) =
                (delivered Res_runCustomCommand (fst (echo p world0)),
                 (snd (echo p world0), [] @ [CustomCommandHook p]))"
      by (simp add: demo_core_def)
    then show ?thesis
      by (auto simp add: empty_request_def echo_def delivered_def)
  qed
  have e: "execute demo_core ?login None (world0, [])
       = (Resolved (Res_error \<lparr> er_type = Some Unauthorized,
                                 er_message = ''wrong credentials'' \<rparr>),
          (world0, [AuthenticationHook (alice_login ''guess'')]))"
  proof -
    have inner: "login demo_core (alice_login ''guess'') None (world0, []) =
        (Resolved (Failed \<lparr> er_type = Some Unauthorized,
                             er_message = ''wrong credentials'' \<rparr>),
         (world0, [AuthenticationHook (alice_login ''guess'')]))"
      by (simp add: login_def js_defs demo_defs alice_login_def createErrorResult_def
          new_Error_def)
    from login
      execute_priority [where r = ?login and v = Login
        and others = "[Logout]" and core = demo_core and session = None
        and w = world0 and tr = "[]"]
    have "\<exists>c. req_login ?login = Some c
            \<and> execute demo_core ?login None (world0, []) =
                (delivered Res_login (fst (login demo_core c None (world0, []))),
                 snd (login demo_core c None (world0, [])))"
      by blast
    then have "execute demo_core ?login None (world0, []) =
                (delivered Res_login
                   (fst (login demo_core (alice_login ''guess'') None (world0, []))),
                 snd (login demo_core (alice_login ''guess'') None (world0, [])))"
      by (auto simp add: empty_request_def)
    then show ?thesis
      unfolding inner by (simp add: delivered_def)
  qed
  have f: "execute demo_core ?logout None (world0, [])
       = (Resolved (Res_logout ()),
          (world0\<lparr> sessions := [] \<rparr>, [SessionDelete ''sid-u2'']))"
  proof -
    have inner: "logout demo_core \<lparr> lo_sessionId = ''sid-u2'' \<rparr> None (world0, []) =
        (Resolved (Ok ()), (world0\<lparr> sessions := [] \<rparr>, [SessionDelete ''sid-u2'']))"
      by (simp add: logout_def js_defs demo_defs Let_def)
    from logout
      execute_priority [where r = ?logout and v = Logout
        and others = "[]" and core = demo_core and session = None
        and w = world0 and tr = "[]"]
    have "\<exists>c. req_logout ?logout = Some c
            \<and> execute demo_core ?logout None (world0, []) =
                (delivered Res_logout (fst (logout demo_core c None (world0, []))),
                 snd (logout demo_core c None (world0, [])))"
      by blast
    then have "execute demo_core ?logout None (world0, []) =
                (delivered Res_logout
                   (fst (logout demo_core \<lparr> lo_sessionId = ''sid-u2'' \<rparr> None (world0, []))),
                 snd (logout demo_core \<lparr> lo_sessionId = ''sid-u2'' \<rparr> None (world0, [])))"
      by (auto simp add: empty_request_def)
    then show ?thesis
      unfolding inner by (simp add: delivered_def)
  qed
  have g: "execute demo_core empty_request None (world0, [])
       = (Resolved (Res_error \<lparr> er_type = Some NotFound,
                                 er_message = ''Invalid method name.'' \<rparr>), (world0, []))"
    using none execute_priority [where r = empty_request and core = demo_core
        and session = None and w = world0 and tr = "[]"]
    by blast
  show ?thesis
    using full get none a b c d e f g by (intro conjI) simp_all
qed

text \<open>
  C5, as amended. The Operation Backend has eleven methods, \<open>find\<close> to \<open>delete\<close>. For
  an envelope whose only populated variant is one of these, \<open>execute\<close> calls the
  method of that name once, with the variant's payload, and makes no other call; it
  resolves to the result under the key of that name when the result has \<open>ok\<close> true,
  and to \<open>{error: result}\<close> when it has \<open>ok\<close> false.
\<close>

theorem execute_backend_operation:
  assumes "populated_variants r = [v]"
      and "backend_method (entityClient (clients core)) v = Some m"
      and "payload v r = Some p"
      and "result_key v = Some key"
      and "m p w = (Resolved result, w1)"
  shows "execute core r session (w, tr) =
           (Resolved (case result of Ok x \<Rightarrow> key x | Failed e \<Rightarrow> Res_error e),
            (w1, tr @ [EntityCall v p]))"
proof -
  have "first_populated r = Some v"
    using assms(1) by (rule first_populated_Cons)
  then have "execute core r session (w, tr) = execute core (only v r) session (w, tr)"
    by (rule execute_of_first_populated)
  also have "\<dots> = (Resolved (case result of Ok x \<Rightarrow> key x | Failed e \<Rightarrow> Res_error e),
            (w1, tr @ [EntityCall v p]))"
    using assms(2-5)
    by (cases v)
       (auto simp add: execute_def if_not_null_def empty_request_def js_defs wrap_def Let_def
          split: resultOrError.split)
  finally show ?thesis .
qed

theorem execute_backend_operation_witness:
  "populated_variants (single Find) = [Find]
   \<and> execute demo_core (single Find) None (world0, [])
       = (Resolved (Res_find [(''op'', JStr ''find'')]),
          (world0, [EntityCall Find [(''op'', JStr ''find'')]]))
   \<and> populated_variants (single Get) = [Get]
   \<and> execute demo_core (single Get) None (world0, [])
       = (Resolved (Res_error \<lparr> er_type = Some NotFound, er_message = ''no such entity'' \<rparr>),
          (world0, [EntityCall Get [(''op'', JStr ''get'')]]))"
proof -
  have one: "populated_variants (single Find) = [Find]"
    by (simp add: populated_variants_def all_variants_def demo_defs)
  have two: "populated_variants (single Get) = [Get]"
    by (simp add: populated_variants_def all_variants_def demo_defs)
  have found: "echo [(''op'', JStr ''find'')] world0
                 = (Resolved (Ok [(''op'', JStr ''find'')]), world0)"
    by (simp add: echo_def)
  have lost: "missing [(''op'', JStr ''get'')] world0
                = (Resolved (Failed \<lparr> er_type = Some NotFound,
                                       er_message = ''no such entity'' \<rparr>), world0)"
    by (simp add: missing_def)
  show ?thesis
    using one two found lost
      execute_backend_operation [where r = "single Find" and v = Find and core = demo_core
        and m = echo and p = "[(''op'', JStr ''find'')]" and key = Res_find
        and w = world0 and ?w1.0 = world0 and result = "Ok [(''op'', JStr ''find'')]"
        and session = None and tr = "[]"]
      execute_backend_operation [where r = "single Get" and v = Get and core = demo_core
        and m = missing and p = "[(''op'', JStr ''get'')]" and key = Res_get
        and w = world0 and ?w1.0 = world0
        and result = "Failed \<lparr> er_type = Some NotFound, er_message = ''no such entity'' \<rparr>"
        and session = None and tr = "[]"]
    by (simp add: demo_core_def demo_entityClient_def single_def full_request_def
        empty_request_def)
qed

lemma backend_trace_variants:
  assumes "snd (snd (execute demo_core (single v) None (world0, []))) = [EntityCall v p]"
  shows "v \<in> set (take 11 all_variants)"
  using assms
  by (cases v)
     (simp_all add: all_variants_def execute_def if_not_null_def js_defs wrap_def demo_defs
        login_def logout_def Let_def)

text \<open>
  C5, as stated, speaks of twelve names. No twelve variants are dispatched to a method
  of the Operation Backend: on the small deployment, the one-variant envelopes whose
  only call is the backend method of the variant's name are among the first eleven.
\<close>

theorem twelve_backend_operations_counterexample:
  "\<not> (\<exists>vs. distinct vs \<and> length vs = 12
        \<and> (\<forall>v\<in>set vs. \<exists>p.
              snd (snd (execute demo_core (single v) None (world0, []))) = [EntityCall v p]))"
proof
  assume "\<exists>vs. distinct vs \<and> length vs = 12
        \<and> (\<forall>v\<in>set vs. \<exists>p.
              snd (snd (execute demo_core (single v) None (world0, []))) = [EntityCall v p])"
  then obtain vs where d: "distinct vs" and l: "length vs = 12"
    and t: "\<forall>v\<in>set vs. \<exists>p.
              snd (snd (execute demo_core (single v) None (world0, []))) = [EntityCall v p]"
    by blast
  from t have "set vs \<subseteq> set (take 11 all_variants)"
    using backend_trace_variants by blast
  then have "card (set vs) \<le> card (set (take 11 all_variants))"
    by (intro card_mono) simp_all
  also have "\<dots> \<le> length (take 11 all_variants)"
    by (rule card_length)
  also have "\<dots> = 11"
    by (simp add: all_variants_def)
  finally have "card (set vs) \<le> 11" .
  moreover have "card (set vs) = 12"
    using d l by (simp add: distinct_card)
  ultimately show False by simp
qed

section \<open>The boundary of run\<close>

text \<open>
  C1. Two requests on which \<open>run\<close> rejects instead of resolving to an error result.
  With a Session Store that cannot be reached, the exception of \<open>get\<close> is raised before
  the \<open>try\<close> block and leaves \<open>run\<close>. With a backing store whose \<open>delete\<close> rejects,
  the dispatcher rejects, the wrapper's promise rejects with it, and \<open>run\<close>, which
  returned that promise without awaiting it, rejects too.
\<close>

theorem run_rejects:
  "run (\<lambda>r. None) offline_core (single Find) (Some ''sid-u2'') (world0, [])
     = (Rejected (new_Error ''session store unreachable''),
        (world0, [SessionGet (Some ''sid-u2'')]))
   \<and> run (\<lambda>r. None) demo_core (single Delete) (Some ''sid-u2'') (world0, [])
     = (Rejected (new_Error ''connection lost''),
        (world0, [SessionGet (Some ''sid-u2''), AclHook, ValidationHook,
                  ExecutionWrapperHook, EntityCall Delete [(''op'', JStr ''delete'')]]))"
  by (simp add: run_def execute_def if_not_null_def js_defs wrap_def demo_defs
      offline_core_def unreachable_sessionClient_def Let_def)

end
